theory Spec2Isabelle
  imports Main "HOL-Library.Sublist"
begin

section \<open>The operating environment read by the handlers\<close>

text \<open>
  The view functions of \<^verbatim>\<open>flask-app/app.py\<close> take no parameters. What they read is
  ambient: \<^verbatim>\<open>socket.gethostname()\<close> and \<^verbatim>\<open>os.getenv\<close>. The ambient state is made an
  explicit argument: the host name of the machine, and \<^verbatim>\<open>os.environ\<close>, the dictionary
  from variable names to values that Python fills from the environment of the process when
  the interpreter starts. It is this dictionary that \<^verbatim>\<open>os.getenv\<close> looks a variable up in,
  not the environment of the process itself.
\<close>

record os_state =
  hostname :: string
  environ :: "string \<rightharpoonup> string"

definition gethostname :: "os_state \<Rightarrow> string" where
  "gethostname w = hostname w"

text \<open>
  \<^verbatim>\<open>os.getenv(key, default)\<close>: the value that \<^verbatim>\<open>os.environ\<close> has for the variable when it
  has one, the default otherwise.
\<close>

definition getenv :: "os_state \<Rightarrow> string \<Rightarrow> string \<Rightarrow> string" where
  "getenv w key dflt = (case environ w key of None \<Rightarrow> dflt | Some v \<Rightarrow> v)"

section \<open>Requests and responses\<close>

text \<open>
  An inbound request as the framework presents it to a view: the method, the path, and the
  content (query string, header fields, body). The module never imports the framework's
  request object, so no view can name any of these fields; the views below receive the
  request all the same, so that their independence of it is a theorem and not a typing fact.
\<close>

type_synonym http_method = string

record request =
  request_method :: http_method
  path :: string
  query_string :: string
  headers :: "(string \<times> string) list"
  data :: string

text \<open>
  A response: status code, media type, and the JSON object of the body, kept as the list of
  key and value pairs in the order of the dictionary literal it is built from.
\<close>

record response =
  status_code :: nat
  mimetype :: string
  body :: "(string \<times> string) list"

text \<open>
  Modelled from the spec: the framework's \<^verbatim>\<open>jsonify\<close>, which is imported from Flask and is not
  under src/. Spec section 6 gives the media type (\<^verbatim>\<open>application/json\<close>, body a JSON
  object), section 4.1 the status 200 of a response that a view returns without a status.
\<close>

definition jsonify :: "(string \<times> string) list \<Rightarrow> response" where
  "jsonify d = \<lparr>status_code = 200, mimetype = ''application/json'', body = d\<rparr>"

text \<open>A view that returns the pair \<^verbatim>\<open>(response, status)\<close> has the status set on the response.\<close>

definition with_status :: "response \<Rightarrow> nat \<Rightarrow> response" where
  "with_status rv status = rv\<lparr>status_code := status\<rparr>"

section \<open>The three view functions\<close>

type_synonym view = "request \<Rightarrow> os_state \<Rightarrow> response"

definition home :: view where
  "home r w = jsonify
     [(''message'', ''Hello from Flask Demo!''),
      (''hostname'', gethostname w),
      (''version'', ''1.0.0'')]"

definition health :: view where
  "health r w = with_status (jsonify [(''status'', ''healthy'')]) 200"

definition info :: view where
  "info r w = jsonify
     [(''app'', ''Flask Demo Container''),
      (''environment'', getenv w ''ENVIRONMENT'' ''production''),
      (''hostname'', gethostname w)]"


section \<open>The application object and its route table\<close>

text \<open>
  A rule of the URL map is a pattern and the name of an endpoint. The pattern of a rule
  written without a converter, as \<^verbatim>\<open>'/health'\<close>, is the literal path; the pattern
  \<^verbatim>\<open>'/static/<path:filename>'\<close> is a fixed beginning followed by a path argument, which is
  not empty and does not begin with a slash. A match gives the arguments that the view is
  called with.
\<close>

datatype pattern = Literal string | PathConverter string

fun match_pattern :: "pattern \<Rightarrow> string \<Rightarrow> string list option" where
  "match_pattern (Literal p) s = (if s = p then Some [] else None)"
| "match_pattern (PathConverter p) s =
     (if prefix p s \<and> drop (length p) s \<noteq> [] \<and> take 1 (drop (length p) s) \<noteq> ''/''
      then Some [drop (length p) s] else None)"

fun match_rules :: "(pattern \<times> string) list \<Rightarrow> string \<Rightarrow> (string \<times> string list) option" where
  "match_rules [] s = None"
| "match_rules ((pat, endpoint) # rules) s =
     (case match_pattern pat s of
        Some args \<Rightarrow> Some (endpoint, args)
      | None \<Rightarrow> match_rules rules s)"

text \<open>
  A view of the application is either a function of the module or the framework's own view
  that sends a file of the static folder.
\<close>

datatype view_function = View view | SendStaticFile

datatype http_error = NotFound | MethodNotAllowed | InternalServerError

record flask =
  import_name :: string
  url_map :: "(pattern \<times> string) list"
  view_functions :: "string \<rightharpoonup> view_function"
  error_handler_spec :: "http_error \<rightharpoonup> view"

text \<open>
  Modelled from the spec: the constructor \<^verbatim>\<open>Flask\<close> of the framework, which is not under
  src/. The spec describes the three routes of the module and no other; the constructor,
  called as the module calls it (\<^verbatim>\<open>Flask(__name__)\<close>, so with its default static folder),
  registers no error handler and one rule of its own before any route of the module:
  \<^verbatim>\<open>/static/<path:filename>\<close> under the endpoint \<^verbatim>\<open>static\<close>, whose view is the framework's. That
  rule is part of the application the module builds, so it is kept here.
\<close>

definition Flask :: "string \<Rightarrow> flask" where
  "Flask name = \<lparr>import_name = name,
     url_map = [(PathConverter ''/static/'', ''static'')],
     view_functions = [''static'' \<mapsto> SendStaticFile],
     error_handler_spec = Map.empty\<rparr>"

text \<open>
  Each \<^verbatim>\<open>@app.route(rule)\<close> of the module appends the rule to the URL map under the endpoint
  named after the decorated function and records the function as that endpoint's view. The
  module passes no \<^verbatim>\<open>methods\<close> argument to any route, writes no converter in any rule, and
  registers no error handler.
\<close>

definition route :: "string \<Rightarrow> string \<Rightarrow> view \<Rightarrow> flask \<Rightarrow> flask" where
  "route rule endpoint f a =
     a\<lparr>url_map := url_map a @ [(Literal rule, endpoint)],
       view_functions := (view_functions a)(endpoint \<mapsto> View f)\<rparr>"

definition app :: "string \<Rightarrow> flask" where
  "app name =
     route ''/api/info'' ''info'' info
       (route ''/health'' ''health'' health
          (route ''/'' ''home'' home (Flask name)))"

section \<open>Dispatch\<close>

text \<open>
  What a request comes to: the response of a view of the module; the framework's generic
  answer to an HTTP error (no handler of the application involved); an answer that the
  routing layer gives by itself to a method it accepts on a rule without the application
  asking for it; or the framework's static view called with its arguments, which sends the
  named file when the static folder has it and answers not-found when it has not (the
  contents of that folder are not part of the model).
\<close>

datatype outcome =
    Reply response
  | Generic http_error
  | Automatic string http_method
  | StaticFile "string list"

definition code :: "http_error \<Rightarrow> nat" where
  "code e = (case e of NotFound \<Rightarrow> 404 | MethodNotAllowed \<Rightarrow> 405 | InternalServerError \<Rightarrow> 500)"

text \<open>
  The status code of an outcome, where the model fixes it: that of the response of a view,
  or that of the HTTP error.
\<close>

fun status_of :: "outcome \<Rightarrow> nat option" where
  "status_of (Reply rv) = Some (status_code rv)"
| "status_of (Generic e) = Some (code e)"
| "status_of (Automatic endpoint m) = None"
| "status_of (StaticFile args) = None"

text \<open>
  Modelled from the spec: the routing layer of the framework (matching a request against the
  URL map, and the answers 404 and 405), which is not under src/. Spec section 4.1: a rule
  answers the method GET; a path that matches no rule gives the generic not-found response,
  a method the matched rule does not support gives the method-not-allowed response; section 7:
  both come from the HTTP layer, not from application logic. The set \<open>implicit\<close> is the
  set of methods that the routing layer accepts on a rule registered without \<^verbatim>\<open>methods\<close>
  besides GET; neither the source nor the spec fixes it, so it is a parameter.
\<close>

definition rule_methods :: "http_method set \<Rightarrow> http_method set" where
  "rule_methods implicit = insert ''GET'' implicit"

definition handle_http_exception :: "flask \<Rightarrow> http_error \<Rightarrow> request \<Rightarrow> os_state \<Rightarrow> outcome" where
  "handle_http_exception a e r w =
     (case error_handler_spec a e of None \<Rightarrow> Generic e | Some h \<Rightarrow> Reply (h r w))"

definition dispatch_request :: "flask \<Rightarrow> http_method set \<Rightarrow> os_state \<Rightarrow> request \<Rightarrow> outcome" where
  "dispatch_request a implicit w r =
     (case match_rules (url_map a) (path r) of
        None \<Rightarrow> handle_http_exception a NotFound r w
      | Some (endpoint, args) \<Rightarrow>
          if request_method r = ''GET'' then
            (case view_functions a endpoint of
               None \<Rightarrow> handle_http_exception a InternalServerError r w
             | Some (View f) \<Rightarrow> Reply (f r w)
             | Some SendStaticFile \<Rightarrow> StaticFile args)
          else if request_method r \<in> rule_methods implicit then Automatic endpoint (request_method r)
          else handle_http_exception a MethodNotAllowed r w)"

section \<open>The running server\<close>

text \<open>
  What happens around a running server, in the order it happens: a request arrives; code
  running in the process writes \<^verbatim>\<open>os.environ\<close> (\<^verbatim>\<open>os.environ[key] = v\<close>,
  \<^verbatim>\<open>del os.environ[key]\<close>), which changes the dictionary and the environment of the process
  together; the environment of the process is changed past the dictionary (\<^verbatim>\<open>os.putenv\<close>,
  \<^verbatim>\<open>os.unsetenv\<close>); the host name of the machine is changed; or the process is terminated from
  outside.
\<close>

datatype event =
    Request request
  | EnvironSet string string
  | EnvironDel string
  | Putenv string string
  | Unsetenv string
  | Sethostname string
  | Terminate

text \<open>
  The state that the views read. \<^verbatim>\<open>os.putenv\<close> and \<^verbatim>\<open>os.unsetenv\<close> leave \<^verbatim>\<open>os.environ\<close> as it
  is: the dictionary is filled once, at the start of the interpreter.
\<close>

fun os_step :: "os_state \<Rightarrow> event \<Rightarrow> os_state" where
  "os_step w (EnvironSet key v) = w\<lparr>environ := (environ w)(key \<mapsto> v)\<rparr>"
| "os_step w (EnvironDel key) = w\<lparr>environ := (environ w)(key := None)\<rparr>"
| "os_step w (Putenv key v) = w"
| "os_step w (Unsetenv key) = w"
| "os_step w (Sethostname h) = w\<lparr>hostname := h\<rparr>"
| "os_step w (Request r) = w"
| "os_step w Terminate = w"

definition state_after :: "os_state \<Rightarrow> event list \<Rightarrow> os_state" where
  "state_after w evs = foldl os_step w evs"

text \<open>
  The environment of the process itself, which every one of the four changes reaches. At
  the start of the interpreter it is what \<^verbatim>\<open>os.environ\<close> is filled from, so the two agree in
  the state a run starts in.
\<close>

fun penv_step :: "(string \<rightharpoonup> string) \<Rightarrow> event \<Rightarrow> (string \<rightharpoonup> string)" where
  "penv_step penv (EnvironSet key v) = penv(key \<mapsto> v)"
| "penv_step penv (EnvironDel key) = penv(key := None)"
| "penv_step penv (Putenv key v) = penv(key \<mapsto> v)"
| "penv_step penv (Unsetenv key) = penv(key := None)"
| "penv_step penv (Sethostname h) = penv"
| "penv_step penv (Request r) = penv"
| "penv_step penv Terminate = penv"

definition process_environment :: "os_state \<Rightarrow> event list \<Rightarrow> (string \<rightharpoonup> string)" where
  "process_environment w evs = foldl penv_step (environ w) evs"

text \<open>
  Modelled from the spec: the server loop behind \<^verbatim>\<open>app.run\<close>, which belongs to the framework
  and is not under src/. Spec section 6: the process runs until it is terminated externally
  and has no shutdown command of its own; sections 3 and 4.1: every request is handled
  independently, on the state of the operating environment at the time of the request, and
  nothing is shared or cached between requests. The application object is the only thing
  the loop keeps, and the module stores neither host name nor environment in it.
\<close>

fun serve_forever :: "flask \<Rightarrow> http_method set \<Rightarrow> os_state \<Rightarrow> event list \<Rightarrow> outcome list" where
  "serve_forever a implicit w [] = []"
| "serve_forever a implicit w (Terminate # evs) = []"
| "serve_forever a implicit w (Request r # evs) =
     dispatch_request a implicit w r # serve_forever a implicit w evs"
| "serve_forever a implicit w (ev # evs) = serve_forever a implicit (os_step w ev) evs"

fun is_request :: "event \<Rightarrow> bool" where
  "is_request (Request r) = True"
| "is_request ev = False"

section \<open>The main program\<close>

record run_config =
  host :: string
  port :: nat
  debug :: bool

datatype py_exception = OSError string

text \<open>
  Modelled from the spec: \<^verbatim>\<open>Flask.run\<close>, which is not under src/. Spec sections 4.1 and 7: the
  server binds the given address; a bind that fails (the port is in use, say) is a start-up
  failure that carries a descriptive error, and nothing is retried. The operating system is
  the function \<open>bind\<close>: its answer to the \<open>n\<close>-th attempt to bind a host and a port,
  \<open>None\<close> for success and the system's error text otherwise. Only attempt 0 is made.
\<close>

definition app_run ::
  "flask \<Rightarrow> run_config \<Rightarrow> http_method set \<Rightarrow> (nat \<Rightarrow> string \<Rightarrow> nat \<Rightarrow> string option) \<Rightarrow>
   os_state \<Rightarrow> event list \<Rightarrow> py_exception + run_config \<times> outcome list" where
  "app_run a cfg implicit bind w evs =
     (case bind 0 (host cfg) (port cfg) of
        Some msg \<Rightarrow> Inl (OSError msg)
      | None \<Rightarrow> Inr (cfg, serve_forever a implicit w evs))"

text \<open>
  How a run of the module ends: it was imported and started nothing; it stopped with an exit
  status and a diagnostic text; or it is a server bound with a configuration that has
  answered the requests so far.
\<close>

datatype run =
    Imported
  | Exited nat string
  | Serving run_config "outcome list"

text \<open>An exception that nothing catches ends a Python process with status 1 and its text.\<close>

definition uncaught :: "py_exception \<Rightarrow> run" where
  "uncaught exn = (case exn of OSError msg \<Rightarrow> Exited 1 (''OSError: '' @ msg))"

text \<open>
  The module's last statement: \<^verbatim>\<open>if __name__ == '__main__': app.run(host='0.0.0.0', port=5000,
  debug=False)\<close>, with no handler around the call.
\<close>

definition main ::
  "string \<Rightarrow> http_method set \<Rightarrow> (nat \<Rightarrow> string \<Rightarrow> nat \<Rightarrow> string option) \<Rightarrow>
   os_state \<Rightarrow> event list \<Rightarrow> run" where
  "main name implicit bind w evs =
     (if name = ''__main__'' then
        (case app_run (app name) \<lparr>host = ''0.0.0.0'', port = 5000, debug = False\<rparr>
                implicit bind w evs of
           Inl exn \<Rightarrow> uncaught exn
         | Inr (cfg, served) \<Rightarrow> Serving cfg served)
      else Imported)"

section \<open>Facts about the route table\<close>

lemma url_map_app:
  "url_map (app name) =
     [(PathConverter ''/static/'', ''static''), (Literal ''/'', ''home''),
      (Literal ''/health'', ''health''), (Literal ''/api/info'', ''info'')]"
  by (simp add: app_def route_def Flask_def)

lemma error_handler_spec_app: "error_handler_spec (app name) e = None"
  by (simp add: app_def route_def Flask_def)

lemma view_functions_home: "view_functions (app name) ''home'' = Some (View home)"
  by (simp add: app_def route_def Flask_def)

lemma view_functions_health: "view_functions (app name) ''health'' = Some (View health)"
  by (simp add: app_def route_def Flask_def)

lemma view_functions_info: "view_functions (app name) ''info'' = Some (View info)"
  by (simp add: app_def route_def Flask_def)

lemma view_functions_static: "view_functions (app name) ''static'' = Some SendStaticFile"
  by (simp add: app_def route_def Flask_def)

lemma match_home: "match_rules (url_map (app name)) ''/'' = Some (''home'', [])"
  by (simp add: url_map_app)

lemma match_health: "match_rules (url_map (app name)) ''/health'' = Some (''health'', [])"
  by (simp add: url_map_app)

lemma match_info: "match_rules (url_map (app name)) ''/api/info'' = Some (''info'', [])"
  by (simp add: url_map_app)

lemma match_none:
  assumes "s \<notin> {''/'', ''/health'', ''/api/info''}" and "\<not> prefix ''/static/'' s"
  shows "match_rules (url_map (app name)) s = None"
  using assms by (simp add: url_map_app)

lemma dispatch_home:
  "path r = ''/'' \<Longrightarrow> request_method r = ''GET'' \<Longrightarrow>
   dispatch_request (app name) implicit w r = Reply (home r w)"
  by (simp add: dispatch_request_def match_home view_functions_home)

lemma dispatch_health:
  "path r = ''/health'' \<Longrightarrow> request_method r = ''GET'' \<Longrightarrow>
   dispatch_request (app name) implicit w r = Reply (health r w)"
  by (simp add: dispatch_request_def match_health view_functions_health)

lemma dispatch_info:
  "path r = ''/api/info'' \<Longrightarrow> request_method r = ''GET'' \<Longrightarrow>
   dispatch_request (app name) implicit w r = Reply (info r w)"
  by (simp add: dispatch_request_def match_info view_functions_info)

lemma dispatch_unmatched:
  assumes "path r \<notin> {''/'', ''/health'', ''/api/info''}" and "\<not> prefix ''/static/'' (path r)"
  shows "dispatch_request (app name) implicit w r = Generic NotFound"
  using match_none [OF assms, of name]
  by (simp add: dispatch_request_def handle_http_exception_def error_handler_spec_app)

lemma matched_endpoint:
  assumes "path r \<in> {''/'', ''/health'', ''/api/info''}"
  shows "\<exists>endpoint. match_rules (url_map (app name)) (path r) = Some (endpoint, [])"
proof -
  from assms consider "path r = ''/''" | "path r = ''/health''" | "path r = ''/api/info''"
    by auto
  then show ?thesis
  proof cases
    case 1
    then show ?thesis by (simp add: match_home)
  next
    case 2
    then show ?thesis by (simp add: match_health)
  next
    case 3
    then show ?thesis by (simp add: match_info)
  qed
qed

lemma dispatch_other_method:
  assumes "path r \<in> {''/'', ''/health'', ''/api/info''}"
    and "request_method r \<noteq> ''GET''"
  shows "\<exists>endpoint. dispatch_request (app name) implicit w r =
           (if request_method r \<in> rule_methods implicit
            then Automatic endpoint (request_method r) else Generic MethodNotAllowed)"
proof -
  from assms(1) obtain endpoint
    where "match_rules (url_map (app name)) (path r) = Some (endpoint, [])"
    using matched_endpoint by blast
  with assms(2) have "dispatch_request (app name) implicit w r =
      (if request_method r \<in> rule_methods implicit
       then Automatic endpoint (request_method r) else Generic MethodNotAllowed)"
    by (simp add: dispatch_request_def handle_http_exception_def error_handler_spec_app)
  then show ?thesis ..
qed

lemma dispatch_unsupported:
  assumes "path r \<in> {''/'', ''/health'', ''/api/info''}"
    and "request_method r \<notin> rule_methods implicit"
  shows "dispatch_request (app name) implicit w r = Generic MethodNotAllowed"
proof -
  from assms(2) have "request_method r \<noteq> ''GET''"
    by (auto simp add: rule_methods_def)
  from dispatch_other_method [OF assms(1) this, of name implicit w] assms(2)
  show ?thesis by auto
qed

section \<open>Facts about the server loop\<close>

lemma state_after_Nil: "state_after w [] = w"
  by (simp add: state_after_def)

lemma state_after_Cons: "state_after w (ev # evs) = state_after (os_step w ev) evs"
  by (simp add: state_after_def)

lemma state_after_snoc: "state_after w (evs @ [ev]) = os_step (state_after w evs) ev"
  by (simp add: state_after_def)

lemma serve_forever_append:
  "Terminate \<notin> set evs \<Longrightarrow>
   serve_forever a implicit w (evs @ es) =
     serve_forever a implicit w evs @ serve_forever a implicit (state_after w evs) es"
proof (induction evs arbitrary: w)
  case Nil
  show ?case by (simp add: state_after_Nil)
next
  case (Cons ev evs)
  from Cons.prems have rest: "Terminate \<notin> set evs" and here: "ev \<noteq> Terminate"
    by auto
  have same: "serve_forever a implicit w' (evs @ es) =
      serve_forever a implicit w' evs @ serve_forever a implicit (state_after w' evs) es" for w'
    using rest by (rule Cons.IH)
  from here show ?case
    by (cases ev) (simp_all add: state_after_Cons same)
qed

lemma serve_forever_length:
  "Terminate \<notin> set evs \<Longrightarrow>
   length (serve_forever a implicit w evs) = length (filter is_request evs)"
proof (induction evs arbitrary: w)
  case Nil
  show ?case by simp
next
  case (Cons ev evs)
  from Cons.prems have rest: "Terminate \<notin> set evs"
    by simp
  from Cons.prems Cons.IH [OF rest] show ?case
    by (cases ev) simp_all
qed

lemma info_body:
  "info r w =
     \<lparr>status_code = 200, mimetype = ''application/json'',
      body = [(''app'', ''Flask Demo Container''),
              (''environment'', getenv w ''ENVIRONMENT'' ''production''),
              (''hostname'', hostname w)]\<rparr>"
  by (simp add: info_def jsonify_def gethostname_def)

section \<open>The three routes\<close>

text \<open>
  C1. Every GET request to \<^verbatim>\<open>/\<close> is answered with status 200 and media type
  \<^verbatim>\<open>application/json\<close>; the body is the JSON object with exactly the keys message, hostname
  and version, where message is "Hello from Flask Demo!", version is "1.0.0" and hostname is
  the host name of the machine at the time of the call.
\<close>

theorem home_get:
  assumes "path r = ''/''" and "request_method r = ''GET''"
  shows "dispatch_request (app name) implicit w r =
           Reply \<lparr>status_code = 200, mimetype = ''application/json'',
                  body = [(''message'', ''Hello from Flask Demo!''),
                          (''hostname'', hostname w),
                          (''version'', ''1.0.0'')]\<rparr>"
  using assms by (simp add: dispatch_home home_def jsonify_def gethostname_def)

theorem home_get_witness:
  "dispatch_request (app ''__main__'') {''HEAD''}
     \<lparr>hostname = ''web-1'', environ = Map.empty\<rparr>
     \<lparr>request_method = ''GET'', path = ''/'', query_string = ''x=1'',
      headers = [(''Accept'', ''text/html'')], data = []\<rparr> =
   Reply \<lparr>status_code = 200, mimetype = ''application/json'',
          body = [(''message'', ''Hello from Flask Demo!''),
                  (''hostname'', ''web-1''),
                  (''version'', ''1.0.0'')]\<rparr>"
  using home_get [of "\<lparr>request_method = ''GET'', path = ''/'', query_string = ''x=1'',
      headers = [(''Accept'', ''text/html'')], data = []\<rparr>" "''__main__''" "{''HEAD''}"
      "\<lparr>hostname = ''web-1'', environ = Map.empty\<rparr>"]
  by simp

text \<open>
  C2. Every GET request to \<^verbatim>\<open>/health\<close> is answered with status 200, and the body is the
  JSON object with the single key status and the value "healthy", nothing else.
\<close>

theorem health_get:
  assumes "path r = ''/health''" and "request_method r = ''GET''"
  shows "dispatch_request (app name) implicit w r =
           Reply \<lparr>status_code = 200, mimetype = ''application/json'',
                  body = [(''status'', ''healthy'')]\<rparr>"
  using assms by (simp add: dispatch_health health_def with_status_def jsonify_def)

theorem health_get_witness:
  "dispatch_request (app ''__main__'') {}
     \<lparr>hostname = ''web-1'', environ = [''ENVIRONMENT'' \<mapsto> ''staging'']\<rparr>
     \<lparr>request_method = ''GET'', path = ''/health'', query_string = [],
      headers = [], data = ''ping''\<rparr> =
   Reply \<lparr>status_code = 200, mimetype = ''application/json'',
          body = [(''status'', ''healthy'')]\<rparr>"
  using health_get [of "\<lparr>request_method = ''GET'', path = ''/health'', query_string = [],
      headers = [], data = ''ping''\<rparr>" "''__main__''" "{}"
      "\<lparr>hostname = ''web-1'', environ = [''ENVIRONMENT'' \<mapsto> ''staging'']\<rparr>"]
  by simp

text \<open>
  C3. Every GET request to \<^verbatim>\<open>/api/info\<close> is answered with status 200; the field
  environment of the body is the value of the process environment variable ENVIRONMENT when
  the variable is set and the literal "production" when it is unset; the body also has
  app equal to "Flask Demo Container" and hostname equal to the host name.
\<close>

theorem info_get:
  assumes "path r = ''/api/info''" and "request_method r = ''GET''"
  shows "(\<forall>V. environ w ''ENVIRONMENT'' = Some V \<longrightarrow>
            dispatch_request (app name) implicit w r =
              Reply \<lparr>status_code = 200, mimetype = ''application/json'',
                     body = [(''app'', ''Flask Demo Container''),
                             (''environment'', V),
                             (''hostname'', hostname w)]\<rparr>) \<and>
         (environ w ''ENVIRONMENT'' = None \<longrightarrow>
            dispatch_request (app name) implicit w r =
              Reply \<lparr>status_code = 200, mimetype = ''application/json'',
                     body = [(''app'', ''Flask Demo Container''),
                             (''environment'', ''production''),
                             (''hostname'', hostname w)]\<rparr>)"
  using assms by (simp add: dispatch_info info_def jsonify_def gethostname_def getenv_def)

theorem info_get_witness:
  "dispatch_request (app ''__main__'') {}
     \<lparr>hostname = ''web-1'', environ = [''ENVIRONMENT'' \<mapsto> ''staging'']\<rparr>
     \<lparr>request_method = ''GET'', path = ''/api/info'', query_string = [], headers = [], data = []\<rparr> =
   Reply \<lparr>status_code = 200, mimetype = ''application/json'',
          body = [(''app'', ''Flask Demo Container''),
                  (''environment'', ''staging''),
                  (''hostname'', ''web-1'')]\<rparr> \<and>
   dispatch_request (app ''__main__'') {}
     \<lparr>hostname = ''web-1'', environ = Map.empty\<rparr>
     \<lparr>request_method = ''GET'', path = ''/api/info'', query_string = [], headers = [], data = []\<rparr> =
   Reply \<lparr>status_code = 200, mimetype = ''application/json'',
          body = [(''app'', ''Flask Demo Container''),
                  (''environment'', ''production''),
                  (''hostname'', ''web-1'')]\<rparr>"
  using
    info_get [of "\<lparr>request_method = ''GET'', path = ''/api/info'', query_string = [],
        headers = [], data = []\<rparr>"
      "\<lparr>hostname = ''web-1'', environ = [''ENVIRONMENT'' \<mapsto> ''staging'']\<rparr>"
      "''__main__''" "{}"]
    info_get [of "\<lparr>request_method = ''GET'', path = ''/api/info'', query_string = [],
        headers = [], data = []\<rparr>"
      "\<lparr>hostname = ''web-1'', environ = Map.empty\<rparr>"
      "''__main__''" "{}"]
  by simp

section \<open>Routing misses\<close>

text \<open>
  C4, as the claim states it, fails: the claim gives the not-found response to every request
  whose path is none of \<^verbatim>\<open>/\<close>, \<^verbatim>\<open>/health\<close>, \<^verbatim>\<open>/api/info\<close>, but the application also has the rule
  \<^verbatim>\<open>/static/<path:filename>\<close> that the constructor registers. A POST request to
  \<^verbatim>\<open>/static/x.txt\<close> matches that rule and is answered with method-not-allowed (405), not with
  not-found.
\<close>

theorem routing_miss_counterexample:
  "path \<lparr>request_method = ''POST'', path = ''/static/x.txt'', query_string = [],
         headers = [], data = []\<rparr> \<notin> {''/'', ''/health'', ''/api/info''} \<and>
   dispatch_request (app ''__main__'') {''HEAD'', ''OPTIONS''}
     \<lparr>hostname = ''web-1'', environ = Map.empty\<rparr>
     \<lparr>request_method = ''POST'', path = ''/static/x.txt'', query_string = [],
      headers = [], data = []\<rparr> = Generic MethodNotAllowed \<and>
   status_of (dispatch_request (app ''__main__'') {''HEAD'', ''OPTIONS''}
     \<lparr>hostname = ''web-1'', environ = Map.empty\<rparr>
     \<lparr>request_method = ''POST'', path = ''/static/x.txt'', query_string = [],
      headers = [], data = []\<rparr>) \<noteq> Some 404"
  by (simp add: dispatch_request_def url_map_app rule_methods_def handle_http_exception_def
      error_handler_spec_app code_def)

text \<open>
  C4, amended. A request whose path is none of \<^verbatim>\<open>/\<close>, \<^verbatim>\<open>/health\<close>, \<^verbatim>\<open>/api/info\<close> and does not
  begin with \<^verbatim>\<open>/static/\<close> gets the generic not-found response (404); a request to one of the
  three paths with a method that the rule does not support gets the generic
  method-not-allowed response (405); the application has no error logic of its own (no
  error handler is registered).
\<close>

theorem routing_miss:
  "(path r \<notin> {''/'', ''/health'', ''/api/info''} \<and> \<not> prefix ''/static/'' (path r) \<longrightarrow>
      dispatch_request (app name) implicit w r = Generic NotFound \<and>
      status_of (dispatch_request (app name) implicit w r) = Some 404) \<and>
   (path r \<in> {''/'', ''/health'', ''/api/info''} \<and> request_method r \<notin> rule_methods implicit \<longrightarrow>
      dispatch_request (app name) implicit w r = Generic MethodNotAllowed \<and>
      status_of (dispatch_request (app name) implicit w r) = Some 405) \<and>
   error_handler_spec (app name) = Map.empty"
proof -
  have "error_handler_spec (app name) = Map.empty"
    by (rule ext) (simp add: error_handler_spec_app)
  then show ?thesis
    by (simp add: dispatch_unmatched dispatch_unsupported code_def)
qed

theorem routing_miss_witness:
  "dispatch_request (app ''__main__'') {''HEAD'', ''OPTIONS''}
     \<lparr>hostname = ''web-1'', environ = Map.empty\<rparr>
     \<lparr>request_method = ''GET'', path = ''/nope'', query_string = [], headers = [], data = []\<rparr> =
   Generic NotFound \<and>
   status_of (dispatch_request (app ''__main__'') {''HEAD'', ''OPTIONS''}
     \<lparr>hostname = ''web-1'', environ = Map.empty\<rparr>
     \<lparr>request_method = ''GET'', path = ''/nope'', query_string = [], headers = [],
      data = []\<rparr>) = Some 404 \<and>
   dispatch_request (app ''__main__'') {''HEAD'', ''OPTIONS''}
     \<lparr>hostname = ''web-1'', environ = Map.empty\<rparr>
     \<lparr>request_method = ''DELETE'', path = ''/health'', query_string = [], headers = [],
      data = []\<rparr> =
   Generic MethodNotAllowed \<and>
   status_of (dispatch_request (app ''__main__'') {''HEAD'', ''OPTIONS''}
     \<lparr>hostname = ''web-1'', environ = Map.empty\<rparr>
     \<lparr>request_method = ''DELETE'', path = ''/health'', query_string = [], headers = [],
      data = []\<rparr>) = Some 405"
  using
    routing_miss [of "\<lparr>request_method = ''GET'', path = ''/nope'', query_string = [],
        headers = [], data = []\<rparr>" "''__main__''" "{''HEAD'', ''OPTIONS''}"
      "\<lparr>hostname = ''web-1'', environ = Map.empty\<rparr>"]
    routing_miss [of "\<lparr>request_method = ''DELETE'', path = ''/health'', query_string = [],
        headers = [], data = []\<rparr>" "''__main__''" "{''HEAD'', ''OPTIONS''}"
      "\<lparr>hostname = ''web-1'', environ = Map.empty\<rparr>"]
  by (simp add: rule_methods_def code_def)

section \<open>Determinism and independence of the request\<close>

text \<open>
  C5. For each of the three routes, two GET requests made under the same value of
  ENVIRONMENT and the same host name get identical responses, whatever else differs in the
  process environment or in the requests.
\<close>

theorem repeated_get_identical:
  assumes "path r1 \<in> {''/'', ''/health'', ''/api/info''}"
    and "path r2 = path r1"
    and "request_method r1 = ''GET''" and "request_method r2 = ''GET''"
    and "hostname w1 = hostname w2"
    and "environ w1 ''ENVIRONMENT'' = environ w2 ''ENVIRONMENT''"
  shows "dispatch_request (app name) implicit w1 r1 = dispatch_request (app name) implicit w2 r2"
proof -
  from assms(1) consider "path r1 = ''/''" | "path r1 = ''/health''" | "path r1 = ''/api/info''"
    by auto
  then show ?thesis
  proof cases
    case 1
    with assms show ?thesis
      by (simp add: dispatch_home home_def gethostname_def)
  next
    case 2
    with assms show ?thesis
      by (simp add: dispatch_health health_def)
  next
    case 3
    with assms show ?thesis
      by (simp add: dispatch_info info_def gethostname_def getenv_def)
  qed
qed

theorem repeated_get_identical_witness:
  "dispatch_request (app ''__main__'') {}
     \<lparr>hostname = ''web-1'',
      environ = [''ENVIRONMENT'' \<mapsto> ''staging'', ''HOME'' \<mapsto> ''/root'']\<rparr>
     \<lparr>request_method = ''GET'', path = ''/api/info'', query_string = [], headers = [], data = []\<rparr> =
   dispatch_request (app ''__main__'') {}
     \<lparr>hostname = ''web-1'', environ = [''ENVIRONMENT'' \<mapsto> ''staging'']\<rparr>
     \<lparr>request_method = ''GET'', path = ''/api/info'', query_string = ''again=1'',
      headers = [(''Accept'', ''*/*'')], data = []\<rparr>"
  using repeated_get_identical
    [of "\<lparr>request_method = ''GET'', path = ''/api/info'', query_string = [], headers = [],
          data = []\<rparr>"
        "\<lparr>request_method = ''GET'', path = ''/api/info'', query_string = ''again=1'',
          headers = [(''Accept'', ''*/*'')], data = []\<rparr>"
        "\<lparr>hostname = ''web-1'',
          environ = [''ENVIRONMENT'' \<mapsto> ''staging'', ''HOME'' \<mapsto> ''/root'']\<rparr>"
        "\<lparr>hostname = ''web-1'', environ = [''ENVIRONMENT'' \<mapsto> ''staging'']\<rparr>"
        "''__main__''" "{}"]
  by simp

text \<open>
  C7. No view of the module reads any part of the inbound request: each of the three views
  gives the same response for any two requests under the same process environment and host
  name, and two requests to the same one of the three defined routes with the same method
  are answered identically whatever their query string, header fields and body are.
\<close>

theorem request_content_ignored:
  assumes "path r1 \<in> {''/'', ''/health'', ''/api/info''}"
    and "path r2 = path r1" and "request_method r2 = request_method r1"
  shows "dispatch_request (app name) implicit w r1 = dispatch_request (app name) implicit w r2 \<and>
         (\<forall>q q'. home q w = home q' w \<and> health q w = health q' w \<and> info q w = info q' w)"
proof -
  have views: "\<forall>q q'. home q w = home q' w \<and> health q w = health q' w \<and> info q w = info q' w"
    by (simp add: home_def health_def info_def)
  have "dispatch_request (app name) implicit w r1 = dispatch_request (app name) implicit w r2"
  proof (cases "request_method r1 = ''GET''")
    case True
    from assms(1) consider "path r1 = ''/''" | "path r1 = ''/health''" | "path r1 = ''/api/info''"
      by auto
    then show ?thesis
    proof cases
      case 1
      with True assms(2,3) show ?thesis
        by (simp add: dispatch_home home_def)
    next
      case 2
      with True assms(2,3) show ?thesis
        by (simp add: dispatch_health health_def)
    next
      case 3
      with True assms(2,3) show ?thesis
        by (simp add: dispatch_info info_def)
    qed
  next
    case False
    from assms(1) obtain endpoint
      where m: "match_rules (url_map (app name)) (path r1) = Some (endpoint, [])"
      using matched_endpoint by blast
    from False m assms(2,3) show ?thesis
      by (simp add: dispatch_request_def handle_http_exception_def error_handler_spec_app)
  qed
  with views show ?thesis
    by blast
qed

theorem request_content_ignored_witness:
  "dispatch_request (app ''__main__'') {}
     \<lparr>hostname = ''web-1'', environ = Map.empty\<rparr>
     \<lparr>request_method = ''GET'', path = ''/'', query_string = ''hostname=evil'',
      headers = [(''Host'', ''example.org''), (''X-Forwarded-Host'', ''evil'')],
      data = ''{\"version\": \"9\"}''\<rparr> =
   dispatch_request (app ''__main__'') {}
     \<lparr>hostname = ''web-1'', environ = Map.empty\<rparr>
     \<lparr>request_method = ''GET'', path = ''/'', query_string = [], headers = [], data = []\<rparr>"
  using request_content_ignored
    [of "\<lparr>request_method = ''GET'', path = ''/'', query_string = ''hostname=evil'',
          headers = [(''Host'', ''example.org''), (''X-Forwarded-Host'', ''evil'')],
          data = ''{\"version\": \"9\"}''\<rparr>"
        "\<lparr>request_method = ''GET'', path = ''/'', query_string = [], headers = [], data = []\<rparr>"
        "''__main__''" "{}" "\<lparr>hostname = ''web-1'', environ = Map.empty\<rparr>"]
  by simp

section \<open>Reading at request time\<close>

text \<open>
  C6, as the claim states it, fails: the claim has every change of the process environment
  between two requests show in the second response, but \<^verbatim>\<open>os.getenv\<close> looks ENVIRONMENT up in
  \<^verbatim>\<open>os.environ\<close>, which is filled at the start of the interpreter. After the first request
  \<^verbatim>\<open>os.putenv\<close> sets ENVIRONMENT to "staging" in the environment of the process; the second
  response still says "production".
\<close>

theorem info_putenv_counterexample:
  "process_environment \<lparr>hostname = ''web-1'', environ = Map.empty\<rparr>
     [Request \<lparr>request_method = ''GET'', path = ''/api/info'', query_string = [],
        headers = [], data = []\<rparr>,
      Putenv ''ENVIRONMENT'' ''staging''] ''ENVIRONMENT'' = Some ''staging'' \<and>
   serve_forever (app ''__main__'') {}
     \<lparr>hostname = ''web-1'', environ = Map.empty\<rparr>
     [Request \<lparr>request_method = ''GET'', path = ''/api/info'', query_string = [],
        headers = [], data = []\<rparr>,
      Putenv ''ENVIRONMENT'' ''staging'',
      Request \<lparr>request_method = ''GET'', path = ''/api/info'', query_string = [],
        headers = [], data = []\<rparr>] =
   [Reply \<lparr>status_code = 200, mimetype = ''application/json'',
      body = [(''app'', ''Flask Demo Container''), (''environment'', ''production''),
              (''hostname'', ''web-1'')]\<rparr>,
    Reply \<lparr>status_code = 200, mimetype = ''application/json'',
      body = [(''app'', ''Flask Demo Container''), (''environment'', ''production''),
              (''hostname'', ''web-1'')]\<rparr>]"
  by (simp add: process_environment_def dispatch_info info_body getenv_def)

text \<open>
  C6, amended. The host name is read, and the variable ENVIRONMENT is looked up in
  \<^verbatim>\<open>os.environ\<close>, when a request is handled, not at the start of the server: the answer to a
  GET request to \<^verbatim>\<open>/api/info\<close> is computed from \<^verbatim>\<open>os.environ\<close> and the host name as they are
  after everything that happened before the request. So a request that follows a change of
  the host name, or a change of ENVIRONMENT made through \<^verbatim>\<open>os.environ\<close>, shows the new value;
  a change of the environment of the process made past \<^verbatim>\<open>os.environ\<close> (\<^verbatim>\<open>os.putenv\<close>,
  \<^verbatim>\<open>os.unsetenv\<close>) does not show.
\<close>

theorem info_reads_at_request_time:
  assumes "Terminate \<notin> set evs"
    and "path r = ''/api/info''" and "request_method r = ''GET''"
  shows "serve_forever (app name) implicit w (evs @ [Request r]) =
           serve_forever (app name) implicit w evs @
             [Reply \<lparr>status_code = 200, mimetype = ''application/json'',
                body = [(''app'', ''Flask Demo Container''),
                        (''environment'', getenv (state_after w evs) ''ENVIRONMENT'' ''production''),
                        (''hostname'', hostname (state_after w evs))]\<rparr>] \<and>
         serve_forever (app name) implicit w (evs @ [EnvironSet ''ENVIRONMENT'' v, Request r]) =
           serve_forever (app name) implicit w evs @
             [Reply \<lparr>status_code = 200, mimetype = ''application/json'',
                body = [(''app'', ''Flask Demo Container''),
                        (''environment'', v),
                        (''hostname'', hostname (state_after w evs))]\<rparr>] \<and>
         serve_forever (app name) implicit w (evs @ [EnvironDel ''ENVIRONMENT'', Request r]) =
           serve_forever (app name) implicit w evs @
             [Reply \<lparr>status_code = 200, mimetype = ''application/json'',
                body = [(''app'', ''Flask Demo Container''),
                        (''environment'', ''production''),
                        (''hostname'', hostname (state_after w evs))]\<rparr>] \<and>
         serve_forever (app name) implicit w (evs @ [Sethostname h, Request r]) =
           serve_forever (app name) implicit w evs @
             [Reply \<lparr>status_code = 200, mimetype = ''application/json'',
                body = [(''app'', ''Flask Demo Container''),
                        (''environment'', getenv (state_after w evs) ''ENVIRONMENT'' ''production''),
                        (''hostname'', h)]\<rparr>] \<and>
         serve_forever (app name) implicit w (evs @ [Putenv ''ENVIRONMENT'' v, Request r]) =
           serve_forever (app name) implicit w (evs @ [Request r]) \<and>
         serve_forever (app name) implicit w (evs @ [Unsetenv ''ENVIRONMENT'', Request r]) =
           serve_forever (app name) implicit w (evs @ [Request r])"
proof -
  have step: "serve_forever (app name) implicit w (evs @ es) =
      serve_forever (app name) implicit w evs @
        serve_forever (app name) implicit (state_after w evs) es" for es
    using assms(1) by (rule serve_forever_append)
  have one: "dispatch_request (app name) implicit w' r = Reply (info r w')" for w'
    using assms(2,3) by (rule dispatch_info)
  show ?thesis
    by (simp add: step one info_body getenv_def)
qed

theorem info_reads_at_request_time_witness:
  "serve_forever (app ''__main__'') {}
     \<lparr>hostname = ''web-1'', environ = Map.empty\<rparr>
     [Request \<lparr>request_method = ''GET'', path = ''/api/info'', query_string = [],
        headers = [], data = []\<rparr>,
      EnvironSet ''ENVIRONMENT'' ''staging'',
      Request \<lparr>request_method = ''GET'', path = ''/api/info'', query_string = [],
        headers = [], data = []\<rparr>] =
   [Reply \<lparr>status_code = 200, mimetype = ''application/json'',
      body = [(''app'', ''Flask Demo Container''), (''environment'', ''production''),
              (''hostname'', ''web-1'')]\<rparr>,
    Reply \<lparr>status_code = 200, mimetype = ''application/json'',
      body = [(''app'', ''Flask Demo Container''), (''environment'', ''staging''),
              (''hostname'', ''web-1'')]\<rparr>] \<and>
   serve_forever (app ''__main__'') {}
     \<lparr>hostname = ''web-1'', environ = Map.empty\<rparr>
     [Request \<lparr>request_method = ''GET'', path = ''/api/info'', query_string = [],
        headers = [], data = []\<rparr>,
      Sethostname ''web-2'',
      Request \<lparr>request_method = ''GET'', path = ''/api/info'', query_string = [],
        headers = [], data = []\<rparr>] =
   [Reply \<lparr>status_code = 200, mimetype = ''application/json'',
      body = [(''app'', ''Flask Demo Container''), (''environment'', ''production''),
              (''hostname'', ''web-1'')]\<rparr>,
    Reply \<lparr>status_code = 200, mimetype = ''application/json'',
      body = [(''app'', ''Flask Demo Container''), (''environment'', ''production''),
              (''hostname'', ''web-2'')]\<rparr>]"
  using info_reads_at_request_time
    [of "[Request \<lparr>request_method = ''GET'', path = ''/api/info'', query_string = [],
            headers = [], data = []\<rparr>]"
        "\<lparr>request_method = ''GET'', path = ''/api/info'', query_string = [],
            headers = [], data = []\<rparr>"
        "''__main__''" "{}" "\<lparr>hostname = ''web-1'', environ = Map.empty\<rparr>"
        "''staging''" "''web-2''"]
  by (simp add: dispatch_info info_body getenv_def state_after_def)

section \<open>Start-up\<close>

text \<open>
  C9. Run as the main program, the module starts the server on host 0.0.0.0 (all
  interfaces) and TCP port 5000 with debug mode off; once bound, the server answers every
  request that arrives before the process is terminated from outside, and nothing after.
\<close>

theorem main_binds_and_serves:
  assumes "bind 0 ''0.0.0.0'' 5000 = None"
  shows "main ''__main__'' implicit bind w evs =
           Serving \<lparr>host = ''0.0.0.0'', port = 5000, debug = False\<rparr>
             (serve_forever (app ''__main__'') implicit w evs) \<and>
         (Terminate \<notin> set evs \<longrightarrow>
            length (serve_forever (app ''__main__'') implicit w evs) =
              length (filter is_request evs) \<and>
            serve_forever (app ''__main__'') implicit w (evs @ Terminate # later) =
              serve_forever (app ''__main__'') implicit w evs)"
  using assms
  by (simp add: main_def app_run_def serve_forever_length serve_forever_append)

theorem main_binds_and_serves_witness:
  "main ''__main__'' {} (\<lambda>n h p. None) \<lparr>hostname = ''web-1'', environ = Map.empty\<rparr>
     [Request \<lparr>request_method = ''GET'', path = ''/health'', query_string = [],
        headers = [], data = []\<rparr>,
      Request \<lparr>request_method = ''GET'', path = ''/health'', query_string = [],
        headers = [], data = []\<rparr>] =
   Serving \<lparr>host = ''0.0.0.0'', port = 5000, debug = False\<rparr>
     [Reply \<lparr>status_code = 200, mimetype = ''application/json'',
        body = [(''status'', ''healthy'')]\<rparr>,
      Reply \<lparr>status_code = 200, mimetype = ''application/json'',
        body = [(''status'', ''healthy'')]\<rparr>]"
  using main_binds_and_serves
    [of "\<lambda>n h p. None" "{}" "\<lparr>hostname = ''web-1'', environ = Map.empty\<rparr>"
        "[Request \<lparr>request_method = ''GET'', path = ''/health'', query_string = [],
            headers = [], data = []\<rparr>,
          Request \<lparr>request_method = ''GET'', path = ''/health'', query_string = [],
            headers = [], data = []\<rparr>]" "[]"]
  by (simp add: dispatch_health health_def with_status_def jsonify_def)

text \<open>
  C10. When binding the port fails at start-up, the process stops with a non-zero exit
  status and a diagnostic text that carries the system's error; no request is served, and
  the bind is not tried again: what the system would answer to a later attempt changes
  nothing.
\<close>

theorem bind_failure_aborts:
  assumes "bind 0 ''0.0.0.0'' 5000 = Some msg"
  shows "\<exists>status diagnostic.
           main ''__main__'' implicit bind w evs = Exited status diagnostic \<and>
           status \<noteq> 0 \<and> diagnostic \<noteq> [] \<and> suffix msg diagnostic \<and>
           (\<forall>bind'. bind' 0 ''0.0.0.0'' 5000 = bind 0 ''0.0.0.0'' 5000 \<longrightarrow>
              main ''__main__'' implicit bind' w evs = Exited status diagnostic)"
  using assms
  by (simp add: main_def app_run_def uncaught_def suffix_def)

theorem bind_failure_aborts_witness:
  "main ''__main__'' {}
     (\<lambda>n h p. if n = 0 then Some ''[Errno 98] Address already in use'' else None)
     \<lparr>hostname = ''web-1'', environ = Map.empty\<rparr>
     [Request \<lparr>request_method = ''GET'', path = ''/health'', query_string = [],
        headers = [], data = []\<rparr>] =
   Exited 1 ''OSError: [Errno 98] Address already in use''"
  using bind_failure_aborts
    [of "\<lambda>n h p. if n = 0 then Some ''[Errno 98] Address already in use'' else None"
        "''[Errno 98] Address already in use''" "{}"
        "\<lparr>hostname = ''web-1'', environ = Map.empty\<rparr>"
        "[Request \<lparr>request_method = ''GET'', path = ''/health'', query_string = [],
            headers = [], data = []\<rparr>]"]
  by (simp add: main_def app_run_def uncaught_def)

end
